theory Spec2Isabelle
  imports Main
begin

section \<open>The packaging script \<^verbatim>\<open>setup.py\<close>\<close>

text \<open>
  A shallow embedding of \<^verbatim>\<open>src/setup.py\<close>: the long-description selection
  (lines 53--68), the requirement-file loader \<^verbatim>\<open>req_file\<close> (lines 74--77), the
  assembly of \<^verbatim>\<open>extras_require\<close> (lines 80--97) and the \<^verbatim>\<open>StyleCommand\<close>
  class (lines 104--155).

  Python text is modelled as \<^typ>\<open>string\<close>, one \<^typ>\<open>char\<close> per code point, so the
  model covers texts whose code points lie below 256. Exceptions are values of the type
  \<open>error\<close>; a computation that may raise returns \<open>error + 'a\<close>, with \<open>Inl\<close> the raised
  exception.
\<close>

subsection \<open>Exceptions\<close>

datatype error =
    FileNotFoundError string
  | PermissionError string
  | KeyError string
  | SystemExit int

fun is_file_access_error :: "error \<Rightarrow> bool" where
  "is_file_access_error (FileNotFoundError p) = True"
| "is_file_access_error (PermissionError p) = True"
| "is_file_access_error (KeyError k) = False"
| "is_file_access_error (SystemExit c) = False"

text \<open>Sequencing of statements that may raise: the first exception ends the run.\<close>

definition bind :: "error + 'a \<Rightarrow> ('a \<Rightarrow> error + 'b) \<Rightarrow> error + 'b" where
  "bind m f = (case m of Inl e \<Rightarrow> Inl e | Inr x \<Rightarrow> f x)"

subsection \<open>Strings: the \<^verbatim>\<open>str\<close> methods the script calls\<close>

abbreviation LF :: char where "LF \<equiv> CHR 0x0A"
abbreviation CR :: char where "CR \<equiv> CHR 0x0D"

text \<open>
  \<^verbatim>\<open>str.isspace\<close> on one character. Below 256 Python's whitespace is
  \<^verbatim>\<open>\t \n \v \f \r\<close> (9--13), the separators 28--31, the space (32), NEL (133)
  and the no-break space (160).
\<close>

definition isspace :: "char \<Rightarrow> bool" where
  "isspace c = (let n = (of_char c :: nat) in
     (9 \<le> n \<and> n \<le> 13) \<or> (28 \<le> n \<and> n \<le> 32) \<or> n = 133 \<or> n = 160)"

definition lstrip :: "string \<Rightarrow> string" where
  "lstrip s = dropWhile isspace s"

definition rstrip :: "string \<Rightarrow> string" where
  "rstrip s = rev (dropWhile isspace (rev s))"

text \<open>\<^verbatim>\<open>x.strip()\<close>: whitespace removed at both ends.\<close>

definition strip :: "string \<Rightarrow> string" where
  "strip s = rstrip (lstrip s)"

text \<open>\<^verbatim>\<open>x.startswith(p)\<close>.\<close>

definition startswith :: "string \<Rightarrow> string \<Rightarrow> bool" where
  "startswith x p = (take (length p) x = p)"

text \<open>\<^verbatim>\<open>sep.join(xs)\<close>.\<close>

fun join :: "string \<Rightarrow> string list \<Rightarrow> string" where
  "join sep [] = []"
| "join sep [x] = x"
| "join sep (x # y # ys) = x @ sep @ join sep (y # ys)"

text \<open>
  \<^verbatim>\<open>s.split()\<close> with no argument: the maximal runs of non-whitespace characters,
  in order. \<open>cur\<close> is the run being read.
\<close>

fun split_from :: "string \<Rightarrow> string \<Rightarrow> string list" where
  "split_from cur [] = (if cur = [] then [] else [cur])"
| "split_from cur (c # cs) =
     (if isspace c then (if cur = [] then split_from [] cs else cur # split_from [] cs)
      else split_from (cur @ [c]) cs)"

definition split :: "string \<Rightarrow> string list" where
  "split s = split_from [] s"

subsection \<open>Files\<close>

text \<open>
  What the operating system answers for a path the script passes to it: there is no
  such file, there is one that this process may not read, or there is a readable text
  file with the given (decoded) content.
\<close>

datatype fnode = Absent | Denied | Regular string

type_synonym filesystem = "string \<Rightarrow> fnode"

text \<open>\<^verbatim>\<open>os.path.exists(path)\<close>.\<close>

definition exists :: "filesystem \<Rightarrow> string \<Rightarrow> bool" where
  "exists fs path = (fs path \<noteq> Absent)"

text \<open>\<^verbatim>\<open>os.path.join(a, b)\<close> of \<^verbatim>\<open>posixpath\<close>, for two components.\<close>

definition path_join :: "string \<Rightarrow> string \<Rightarrow> string" where
  "path_join a b =
     (if startswith b ''/'' then b
      else if a = [] \<or> (a \<noteq> [] \<and> last a = CHR ''/'') then a @ b
      else a @ ''/'' @ b)"

text \<open>
  Opening a file for reading and reading all of it: \<^verbatim>\<open>FileNotFoundError\<close> and
  \<^verbatim>\<open>PermissionError\<close> are the file-access failures. \<open>read_bytes_decoded\<close> is what
  \<^verbatim>\<open>codecs.open(path, 'r', 'utf-8').read()\<close> returns: the decoded content as stored.
\<close>

definition read_bytes_decoded :: "filesystem \<Rightarrow> string \<Rightarrow> error + string" where
  "read_bytes_decoded fs path =
     (case fs path of
        Absent \<Rightarrow> Inl (FileNotFoundError path)
      | Denied \<Rightarrow> Inl (PermissionError path)
      | Regular s \<Rightarrow> Inr s)"

text \<open>
  The built-in \<^verbatim>\<open>open(path, encoding="utf-8")\<close> reads in text mode with universal
  newlines: \<^verbatim>\<open>\r\n\<close> and a lone \<^verbatim>\<open>\r\<close> arrive as \<^verbatim>\<open>\n\<close>.
\<close>

fun universal_newlines :: "string \<Rightarrow> string" where
  "universal_newlines [] = []"
| "universal_newlines [c] = (if c = CR then [LF] else [c])"
| "universal_newlines (c # d # cs) =
     (if c = CR \<and> d = LF then LF # universal_newlines cs
      else if c = CR then LF # universal_newlines (d # cs)
      else c # universal_newlines (d # cs))"

definition read_text :: "filesystem \<Rightarrow> string \<Rightarrow> error + string" where
  "read_text fs path = bind (read_bytes_decoded fs path) (\<lambda>s. Inr (universal_newlines s))"

text \<open>
  The lines of a text, each with its terminating \<^verbatim>\<open>\n\<close> (the last line may lack
  one), as \<^verbatim>\<open>f.readlines()\<close> lists them.
\<close>

fun lines_keepends :: "string \<Rightarrow> string list" where
  "lines_keepends [] = []"
| "lines_keepends (c # cs) =
     (if c = LF then [c] # lines_keepends cs
      else (case lines_keepends cs of [] \<Rightarrow> [[c]] | l # ls \<Rightarrow> (c # l) # ls))"

definition readlines :: "filesystem \<Rightarrow> string \<Rightarrow> error + string list" where
  "readlines fs path = bind (read_text fs path) (\<lambda>s. Inr (lines_keepends s))"

subsection \<open>Dependency loading (lines 74--77)\<close>

text \<open>
  \<^verbatim>\<open>
  def req_file(filename, folder="requirements"):
      with open(os.path.join(folder, filename), encoding="utf-8") as f:
          content = f.readlines()
      return [x.strip() for x in content if x.strip() and not x.startswith("#")]
  \<close>
  An empty string is falsy, so \<^verbatim>\<open>if x.strip()\<close> keeps the lines whose trimmed form
  is not empty.
\<close>

definition req_file :: "filesystem \<Rightarrow> string \<Rightarrow> string \<Rightarrow> error + string list" where
  "req_file fs filename folder =
     bind (readlines fs (path_join folder filename)) (\<lambda>content.
       Inr [strip x. x \<leftarrow> content, strip x \<noteq> [] \<and> \<not> startswith x ''#''])"

text \<open>
  The lines \<^verbatim>\<open>readlines\<close> yields for a file of the given stored content, and the
  condition of the comprehension on one such line.
\<close>

definition file_lines :: "string \<Rightarrow> string list" where
  "file_lines raw = lines_keepends (universal_newlines raw)"

definition kept_line :: "string \<Rightarrow> bool" where
  "kept_line x = (strip x \<noteq> [] \<and> \<not> startswith x ''#'')"

text \<open>
  The same condition as the specification words it, for comparison: a comment is a line
  whose trimmed form begins with \<^verbatim>\<open>#\<close>.
\<close>

definition spec_kept_line :: "string \<Rightarrow> bool" where
  "spec_kept_line x = (strip x \<noteq> [] \<and> \<not> startswith (strip x) ''#'')"

subsection \<open>List objects and the extras dictionary (lines 80--97)\<close>

text \<open>
  A Python list is an object: the dictionary \<^verbatim>\<open>extras_require\<close> holds references to
  lists, and \<^verbatim>\<open>list(...)\<close> builds a new object. The heap is the sequence of list
  objects built so far, an address is an index into it, and a dictionary keeps its keys
  in insertion order, as \<^verbatim>\<open>dict\<close> does.
\<close>

type_synonym addr = nat
type_synonym heap = "string list list"
type_synonym dict = "(string \<times> addr) list"

definition new_list :: "string list \<Rightarrow> heap \<Rightarrow> addr \<times> heap" where
  "new_list xs h = (length h, h @ [xs])"

text \<open>\<^verbatim>\<open>d[k] = v\<close>: an existing key keeps its place, a new key goes last.\<close>

fun dict_setitem :: "dict \<Rightarrow> string \<Rightarrow> addr \<Rightarrow> dict" where
  "dict_setitem [] k v = [(k, v)]"
| "dict_setitem ((k', v') # d) k v =
     (if k' = k then (k, v) # d else (k', v') # dict_setitem d k v)"

text \<open>\<^verbatim>\<open>d[k]\<close> raises \<^verbatim>\<open>KeyError\<close> for a key that is not there.\<close>

definition dict_getitem :: "dict \<Rightarrow> string \<Rightarrow> error + addr" where
  "dict_getitem d k = (case map_of d k of None \<Rightarrow> Inl (KeyError k) | Some v \<Rightarrow> Inr v)"

definition dict_values :: "dict \<Rightarrow> addr list" where
  "dict_values d = map snd d"

definition dict_keys :: "dict \<Rightarrow> string list" where
  "dict_keys d = map fst d"

text \<open>
  The list a group name stands for in a state (dictionary, heap); \<open>None\<close> when the
  dictionary has no such key.
\<close>

definition group_list :: "dict \<times> heap \<Rightarrow> string \<Rightarrow> string list option" where
  "group_list st k = (case map_of (fst st) k of None \<Rightarrow> None | Some a \<Rightarrow> Some (snd st ! a))"

text \<open>
  Every reference of the dictionary points at an object of the heap. A Python reference
  never dangles; \<open>script_state_wf\<close> below proves this of the states of the script, so
  that \<open>h ! a\<close> is only read in range there.
\<close>

definition wf_state :: "dict \<times> heap \<Rightarrow> bool" where
  "wf_state st = list_all (\<lambda>a. a < length (snd st)) (dict_values (fst st))"

text \<open>
  \<^verbatim>\<open>req_file("<filename>")\<close> with the default folder; the list it returns is a new
  object.
\<close>

definition load_list :: "filesystem \<Rightarrow> string \<Rightarrow> heap \<Rightarrow> error + (addr \<times> heap)" where
  "load_list fs filename h =
     bind (req_file fs filename ''requirements'') (\<lambda>xs. Inr (new_list xs h))"

text \<open>
  \<^verbatim>\<open>
  extras_require = {
      'test': req_file("requirements_test.txt"),
      'asr': req_file("requirements_asr.txt"),
      'cv': req_file("requirements_cv.txt"),
      'nlp': req_file("requirements_nlp.txt"),
      'tts': req_file("requirements_tts.txt"),
      'text_processing': req_file("requirements_text_processing.txt"),
  }
  \<close>
  The values of a dictionary display are evaluated in the order written.
\<close>

definition build_extras :: "filesystem \<Rightarrow> heap \<Rightarrow> error + (dict \<times> heap)" where
  "build_extras fs h0 =
     bind (load_list fs ''requirements_test.txt'' h0) (\<lambda>(test, h1).
     bind (load_list fs ''requirements_asr.txt'' h1) (\<lambda>(asr, h2).
     bind (load_list fs ''requirements_cv.txt'' h2) (\<lambda>(cv, h3).
     bind (load_list fs ''requirements_nlp.txt'' h3) (\<lambda>(nlp, h4).
     bind (load_list fs ''requirements_tts.txt'' h4) (\<lambda>(tts, h5).
     bind (load_list fs ''requirements_text_processing.txt'' h5) (\<lambda>(text_processing, h6).
       Inr ([(''test'', test), (''asr'', asr), (''cv'', cv), (''nlp'', nlp), (''tts'', tts),
             (''text_processing'', text_processing)], h6)))))))"

text \<open>
  \<^verbatim>\<open>extras_require['all'] = list(chain.from_iterable(extras_require.values()))\<close>:
  the right-hand side is evaluated first, over the values the dictionary holds then.
\<close>

definition flatten_all :: "dict \<times> heap \<Rightarrow> dict \<times> heap" where
  "flatten_all st =
     (let (d, h) = st;
          (a, h') = new_list (concat (map (\<lambda>v. h ! v) (dict_values d))) h
      in (dict_setitem d ''all'' a, h'))"

text \<open>
  \<^verbatim>\<open>extras_require['tts'] = list(chain(extras_require['tts'], extras_require['asr']))\<close>
\<close>

definition cross_link :: "dict \<times> heap \<Rightarrow> error + (dict \<times> heap)" where
  "cross_link st =
     (let (d, h) = st in
      bind (dict_getitem d ''tts'') (\<lambda>tts.
      bind (dict_getitem d ''asr'') (\<lambda>asr.
        let (a, h') = new_list (h ! tts @ h ! asr) h
        in Inr (dict_setitem d ''tts'' a, h'))))"

text \<open>
  The module's names after line 97: \<^verbatim>\<open>install_requires\<close>, \<^verbatim>\<open>extras_require\<close>
  and \<^verbatim>\<open>tests_requirements\<close>, and the list objects they refer to.
\<close>

record module_globals =
  install_requires :: addr
  extras_require :: dict
  tests_requirements :: addr
  objects :: heap

definition dependency_loading :: "filesystem \<Rightarrow> heap \<Rightarrow> error + module_globals" where
  "dependency_loading fs h0 =
     bind (load_list fs ''requirements.txt'' h0) (\<lambda>(install, h1).
     bind (build_extras fs h1) (\<lambda>st.
     bind (cross_link (flatten_all st)) (\<lambda>(d, h).
     bind (dict_getitem d ''test'') (\<lambda>tests.
       Inr \<lparr>install_requires = install, extras_require = d,
            tests_requirements = tests, objects = h\<rparr>))))"

text \<open>The list a group name of the finished module stands for.\<close>

definition final_group :: "module_globals \<Rightarrow> string \<Rightarrow> string list option" where
  "final_group g k = group_list (extras_require g, objects g) k"

subsection \<open>The long description (lines 53--68)\<close>

text \<open>
  \<open>here\<close> is \<^verbatim>\<open>os.path.abspath(os.path.dirname(__file__))\<close> and \<open>homepage\<close> is
  \<^verbatim>\<open>package_info.__homepage__\<close>; both come from outside this file. The markdown file
  is read with the built-in \<^verbatim>\<open>open\<close>, the reStructuredText file with
  \<^verbatim>\<open>codecs.open\<close>, from the script's own directory. The result is the pair
  (\<^verbatim>\<open>long_description\<close>, \<^verbatim>\<open>long_description_content_type\<close>).
\<close>

definition long_description :: "filesystem \<Rightarrow> string \<Rightarrow> string \<Rightarrow> error + (string \<times> string)" where
  "long_description fs here homepage =
     (if exists fs ''nemo/README.md'' then
        bind (read_text fs ''nemo/README.md'') (\<lambda>s. Inr (s, ''text/markdown''))
      else if exists fs ''README.rst'' then
        bind (read_bytes_decoded fs (path_join here ''README.rst'')) (\<lambda>s. Inr (s, ''text/x-rst''))
      else Inr (''See '' @ homepage, ''text/plain''))"

subsection \<open>The style command (lines 104--155)\<close>

text \<open>
  The values an option of the command can hold: \<^verbatim>\<open>initialize_options\<close> stores the
  empty string in \<^verbatim>\<open>fix\<close>, and whoever sets the option may store any of these.
  \<open>truthy\<close> is Python's truth value of such a value, which \<^verbatim>\<open>not self.fix\<close> tests.
\<close>

datatype pyval = PyNone | PyBool bool | PyInt int | PyStr string

fun truthy :: "pyval \<Rightarrow> bool" where
  "truthy PyNone = False"
| "truthy (PyBool b) = b"
| "truthy (PyInt i) = (i \<noteq> 0)"
| "truthy (PyStr s) = (s \<noteq> [])"

record StyleCommand =
  scope :: string
  "fix" :: pyval

text \<open>
  The process the command runs in: the world outside that the external tools read and
  change, the subprocess invocations made so far (each a command line), and the records
  the logger has emitted. The logger is configured at level \<^verbatim>\<open>INFO\<close> with the format
  \<^verbatim>\<open>%(message)s\<close>, so every \<^verbatim>\<open>info\<close> and \<^verbatim>\<open>error\<close> record is emitted as its message.
\<close>

datatype level = INFO | ERROR

record 'w process =
  world :: 'w
  calls :: "string list list"
  logged :: "(level \<times> string) list"

text \<open>
  The operating system as the command sees it: running a command line in a world either
  fails to start the program (an exception) or gives the program's exit code, and leaves
  a new world.
\<close>

type_synonym 'w os = "string list \<Rightarrow> 'w \<Rightarrow> (error + int) \<times> 'w"

definition subprocess_call :: "'w os \<Rightarrow> string list \<Rightarrow> 'w process \<Rightarrow> (error + int) \<times> 'w process" where
  "subprocess_call exec command p =
     (let (r, w) = exec command (world p)
      in (r, p\<lparr>world := w, calls := calls p @ [command]\<rparr>))"

definition logger_info :: "string \<Rightarrow> 'w process \<Rightarrow> 'w process" where
  "logger_info msg p = p\<lparr>logged := logged p @ [(INFO, msg)]\<rparr>"

definition logger_error :: "string \<Rightarrow> 'w process \<Rightarrow> 'w process" where
  "logger_error msg p = p\<lparr>logged := logged p @ [(ERROR, msg)]\<rparr>"

text \<open>Decimal digits of a natural number, as an f-string formats an \<^verbatim>\<open>int\<close>.\<close>

fun str_nat :: "nat \<Rightarrow> string" where
  "str_nat n =
     (if n < 10 then [''0123456789'' ! n]
      else str_nat (n div 10) @ [''0123456789'' ! (n mod 10)])"

declare str_nat.simps [simp del]

definition LINE_WIDTH :: nat where
  "LINE_WIDTH = 119"

definition ISORT_BASE :: string where
  "ISORT_BASE =
     ''isort '' @
     ''--multi-line=3 --trailing-comma --force-grid-wrap=0 '' @
     ''--use-parentheses --line-width='' @ str_nat LINE_WIDTH @ '' -rc -ws''"

definition BLACK_BASE :: string where
  "BLACK_BASE = ''black --skip-string-normalization --line-length='' @ str_nat LINE_WIDTH"

text \<open>
  \<^verbatim>\<open>
  def __call_checker(self, base_command, scope, check):
      command = list(base_command)
      command.append(scope)
      if check:
          command.extend(['--check', '--diff'])
      logger.info("Running command: %s", " ".join(command))
      return subprocess.call(command)
  \<close>
\<close>

text \<open>
  \<open>checker_command\<close> is the command line the first four lines build;
  \<open>call_checker\<close> logs it and runs it.
\<close>

definition checker_command :: "string list \<Rightarrow> string \<Rightarrow> bool \<Rightarrow> string list" where
  "checker_command base_command scope' check =
     (let command = base_command;
          command = command @ [scope']
      in if check then command @ [''--check'', ''--diff''] else command)"

definition call_checker ::
  "'w os \<Rightarrow> string list \<Rightarrow> string \<Rightarrow> bool \<Rightarrow> 'w process \<Rightarrow> (error + int) \<times> 'w process" where
  "call_checker exec base_command scope' check p =
     (let command = checker_command base_command scope' check;
          p = logger_info (''Running command: '' @ join '' '' command) p
      in subprocess_call exec command p)"

definition isort :: "'w os \<Rightarrow> string \<Rightarrow> bool \<Rightarrow> 'w process \<Rightarrow> (error + int) \<times> 'w process" where
  "isort exec scope' check p = call_checker exec (split ISORT_BASE) scope' check p"

definition black :: "'w os \<Rightarrow> string \<Rightarrow> bool \<Rightarrow> 'w process \<Rightarrow> (error + int) \<times> 'w process" where
  "black exec scope' check p = call_checker exec (split BLACK_BASE) scope' check p"

abbreviation ESC :: char where "ESC \<equiv> CHR 0x1B"

text \<open>\<^verbatim>\<open>_pass\<close> and \<^verbatim>\<open>_fail\<close>: the coloured verdict, at level info and error.\<close>

definition pass :: "'w process \<Rightarrow> 'w process" where
  "pass p = logger_info ([ESC] @ ''[32mPASS'' @ [ESC] @ ''[0m'') p"

definition fail :: "'w process \<Rightarrow> 'w process" where
  "fail p = logger_error ([ESC] @ ''[31mFAIL'' @ [ESC] @ ''[0m'') p"

text \<open>
  \<^verbatim>\<open>
  def initialize_options(self):
      self.scope = '.'
      self.fix = ''
  \<close>
\<close>

definition initialize_options :: "StyleCommand \<Rightarrow> StyleCommand" where
  "initialize_options self = self\<lparr>scope := ''.'', fix := PyStr []\<rparr>"

definition finalize_options :: "StyleCommand \<Rightarrow> StyleCommand" where
  "finalize_options self = self"

text \<open>
  \<^verbatim>\<open>
  def run(self):
      scope, check = self.scope, not self.fix
      isort_return = self._isort(scope, check)
      black_return = self._black(scope, check)

      if isort_return == 0 and black_return == 0:
          self._pass()
      else:
          self._fail()
          raise SystemExit(isort_return if isort_return != 0 else black_return)
  \<close>
  The result is the exception raised, or \<open>Inr ()\<close> for a normal return, with the process
  as the run leaves it. An exception of \<^verbatim>\<open>subprocess.call\<close> (the program could not be
  started) is not caught, so it ends the run where it is raised.
\<close>

definition run :: "'w os \<Rightarrow> StyleCommand \<Rightarrow> 'w process \<Rightarrow> (error + unit) \<times> 'w process" where
  "run exec self p =
     (let scope' = scope self; check = (\<not> truthy (fix self)) in
      case isort exec scope' check p of
        (Inl e, p1) \<Rightarrow> (Inl e, p1)
      | (Inr isort_return, p1) \<Rightarrow>
          (case black exec scope' check p1 of
             (Inl e, p2) \<Rightarrow> (Inl e, p2)
           | (Inr black_return, p2) \<Rightarrow>
               if isort_return = 0 \<and> black_return = 0 then (Inr (), pass p2)
               else (Inl (SystemExit (if isort_return \<noteq> 0 then isort_return else black_return)),
                     fail p2)))"

subsection \<open>A sample source tree and sample tools\<close>

text \<open>
  Concrete inputs for the instances below. \<open>tree\<close> is the file system that holds the
  listed paths and nothing else. \<open>tools_exiting a b\<close> is an operating system on which
  \<^verbatim>\<open>isort\<close> exits with \<open>a\<close>, \<^verbatim>\<open>black\<close> exits with \<open>b\<close>, and no other program can
  be started; its world counts the programs that have run.
\<close>

definition tree :: "(string \<times> fnode) list \<Rightarrow> filesystem" where
  "tree files path = (case map_of files path of None \<Rightarrow> Absent | Some node \<Rightarrow> node)"

definition sample_tree :: filesystem where
  "sample_tree = tree
     [(''README.rst'', Regular (''NeMo'' @ [CR, LF])),
      (''/repo/README.rst'', Regular (''NeMo'' @ [CR, LF])),
      (''requirements/requirements.txt'', Regular (''numpy'' @ [LF] @ ''torch'' @ [LF])),
      (''requirements/requirements_test.txt'', Regular (''pytest'' @ [LF])),
      (''requirements/requirements_asr.txt'',
         Regular (''# speech'' @ [LF] @ ''librosa'' @ [LF] @ ''numpy'' @ [LF])),
      (''requirements/requirements_cv.txt'', Regular (''pillow'' @ [LF])),
      (''requirements/requirements_nlp.txt'', Regular (''numpy'' @ [LF])),
      (''requirements/requirements_tts.txt'', Regular (''pypinyin'' @ [LF])),
      (''requirements/requirements_text_processing.txt'', Regular (''regex'' @ [LF]))]"

text \<open>The extras dictionary and the heap after the six loads from the sample tree.\<close>

definition sample_extras :: "dict \<times> heap" where
  "sample_extras =
     ([(''test'', 0), (''asr'', 1), (''cv'', 2), (''nlp'', 3), (''tts'', 4),
       (''text_processing'', 5)],
      [[''pytest''], [''librosa'', ''numpy''], [''pillow''], [''numpy''], [''pypinyin''],
       [''regex'']])"

definition tools_exiting :: "int \<Rightarrow> int \<Rightarrow> nat os" where
  "tools_exiting a b command w =
     (case command of
        [] \<Rightarrow> (Inl (FileNotFoundError []), w)
      | prog # args \<Rightarrow>
          if prog = ''isort'' then (Inr a, Suc w)
          else if prog = ''black'' then (Inr b, Suc w)
          else (Inl (FileNotFoundError prog), w))"

section \<open>Properties\<close>

subsection \<open>Trimming and line splitting\<close>

lemma dropWhile_ends:
  assumes "rev (dropWhile P (rev (dropWhile P s))) \<noteq> []"
  shows "\<not> P (hd (rev (dropWhile P (rev (dropWhile P s)))))
       \<and> \<not> P (last (rev (dropWhile P (rev (dropWhile P s)))))"
proof -
  define t where "t = dropWhile P s"
  define v where "v = dropWhile P (rev t)"
  have vne: "v \<noteq> []" using assms by (simp add: v_def t_def)
  then have tne: "t \<noteq> []" by (auto simp: v_def)
  have hv: "\<not> P (hd v)" using vne unfolding v_def by (rule hd_dropWhile)
  have ht: "\<not> P (hd t)" using tne unfolding t_def by (rule hd_dropWhile)
  obtain x where x: "x \<in> set (rev t)" "\<not> P x"
    using vne unfolding v_def by auto
  have "last v = last (rev t)" unfolding v_def using x by (rule dropWhile_last)
  also have "\<dots> = hd t" using tne by (simp add: last_rev)
  finally have lv: "last v = hd t" .
  have "hd (rev v) = last v" using vne by (simp add: hd_rev)
  moreover have "last (rev v) = hd v" using vne by (simp add: last_rev)
  ultimately show ?thesis using hv ht lv by (simp add: v_def t_def)
qed

lemma strip_ends:
  assumes "strip s \<noteq> []"
  shows "\<not> isspace (hd (strip s)) \<and> \<not> isspace (last (strip s))"
  using assms dropWhile_ends [of isspace s] by (simp add: strip_def lstrip_def rstrip_def)

lemma dropWhile_hd_id: "xs \<noteq> [] \<Longrightarrow> \<not> P (hd xs) \<Longrightarrow> dropWhile P xs = xs"
  by (cases xs) auto

lemma strip_Nil: "strip [] = []"
  by (simp add: strip_def lstrip_def rstrip_def)

lemma strip_idem: "strip (strip s) = strip s"
proof (cases "strip s = []")
  case True
  then show ?thesis by (simp add: strip_Nil)
next
  case False
  then have e: "\<not> isspace (hd (strip s))" "\<not> isspace (last (strip s))"
    using strip_ends by auto
  have l: "lstrip (strip s) = strip s"
    unfolding lstrip_def using False e(1) by (rule dropWhile_hd_id)
  have "dropWhile isspace (rev (strip s)) = rev (strip s)"
    using False e(2) by (intro dropWhile_hd_id) (simp_all add: hd_rev)
  then have "rstrip (strip s) = strip s" by (simp add: rstrip_def)
  then show ?thesis using l by (simp add: strip_def [of "strip s"])
qed

lemma not_isspace_hash: "\<not> isspace (CHR ''#'')"
  by (simp add: isspace_def)

lemma dropWhile_snoc_keep: "\<not> P c \<Longrightarrow> dropWhile P (ys @ [c]) = dropWhile P ys @ [c]"
  by (induction ys) auto

text \<open>
  A line that begins with \<^verbatim>\<open>#\<close> still does so when trimmed; the converse fails for a
  line with whitespace before the \<^verbatim>\<open>#\<close>.
\<close>

lemma startswith_hash_strip:
  assumes "startswith x ''#''"
  shows "startswith (strip x) ''#''"
proof -
  obtain xs where x: "x = CHR ''#'' # xs"
    using assms by (cases x) (auto simp: startswith_def)
  have "strip x = CHR ''#'' # rev (dropWhile isspace (rev xs))"
    by (simp add: x strip_def lstrip_def rstrip_def not_isspace_hash dropWhile_snoc_keep)
  then show ?thesis by (simp add: startswith_def)
qed

text \<open>
  \<open>lines_keepends\<close> cuts the text after each \<^verbatim>\<open>\n\<close> and nowhere else: the lines put
  together are the text, no line is empty, and a \<^verbatim>\<open>\n\<close> is the last character of
  its line.
\<close>

lemma concat_lines_keepends: "concat (lines_keepends s) = s"
  by (induction s) (auto split: list.splits)

lemma lines_keepends_shape:
  "l \<in> set (lines_keepends s) \<Longrightarrow> l \<noteq> [] \<and> LF \<notin> set (butlast l)"
  by (induction s arbitrary: l) (auto split: list.splits if_splits)

lemma comprehension_map_filter:
  "[f x. x \<leftarrow> xs, P x] = map f (filter P xs)"
  by (induction xs) auto

subsection \<open>The dependency-file loader\<close>

lemma req_file_Regular:
  assumes "fs (path_join folder filename) = Regular raw"
  shows "req_file fs filename folder = Inr (map strip (filter kept_line (file_lines raw)))"
proof -
  have k: "kept_line = (\<lambda>x. strip x \<noteq> [] \<and> \<not> startswith x ''#'')"
    by (simp add: fun_eq_iff kept_line_def)
  show ?thesis using assms
    by (simp add: req_file_def readlines_def read_text_def read_bytes_decoded_def bind_def
        comprehension_map_filter k file_lines_def)
qed

text \<open>
  What line 77 computes for a readable file: the lines that are not blank and whose
  text as read (before trimming) does not begin with \<^verbatim>\<open>#\<close>, each trimmed, in file
  order. Each string returned is non-empty and has no whitespace at either end, and the
  lines are a partition of the text read.
\<close>

lemma req_file_kept_lines:
  assumes "fs (path_join folder filename) = Regular raw"
  shows "\<exists>result. req_file fs filename folder = Inr result
      \<and> result = map strip (filter kept_line (file_lines raw))
      \<and> length result = length (filter kept_line (file_lines raw))
      \<and> (\<forall>y \<in> set result. y \<noteq> [] \<and> strip y = y \<and> \<not> isspace (hd y) \<and> \<not> isspace (last y))
      \<and> concat (file_lines raw) = universal_newlines raw"
proof -
  let ?r = "map strip (filter kept_line (file_lines raw))"
  have "\<forall>y \<in> set ?r. y \<noteq> [] \<and> strip y = y \<and> \<not> isspace (hd y) \<and> \<not> isspace (last y)"
    by (auto simp: kept_line_def strip_idem strip_ends)
  moreover have "concat (file_lines raw) = universal_newlines raw"
    by (simp add: file_lines_def concat_lines_keepends)
  ultimately show ?thesis using assms req_file_Regular [of fs folder filename raw] by simp
qed

text \<open>
  A file with a comment, a blank line, a requirement followed by spaces and \<^verbatim>\<open>\r\n\<close>,
  and an indented last requirement without a newline.
\<close>

lemma req_file_kept_lines_example:
  "\<exists>result. req_file (\<lambda>p. if p = ''requirements/requirements.txt''
                  then Regular (''# core'' @ [LF] @ [LF] @ ''numpy>=1.22  '' @ [CR, LF] @ '' torch'')
                  else Absent)
     ''requirements.txt'' ''requirements'' = Inr result \<and> result = [''numpy>=1.22'', ''torch'']"
  using req_file_kept_lines [of "\<lambda>p. if p = ''requirements/requirements.txt''
                  then Regular (''# core'' @ [LF] @ [LF] @ ''numpy>=1.22  '' @ [CR, LF] @ '' torch'')
                  else Absent"
       "''requirements''" "''requirements.txt''"
       "''# core'' @ [LF] @ [LF] @ ''numpy>=1.22  '' @ [CR, LF] @ '' torch''"]
  by (simp add: path_join_def startswith_def file_lines_def kept_line_def strip_def lstrip_def
      rstrip_def isspace_def)

text \<open>
  On a file in which no comment is indented, that is, every line whose trimmed form
  begins with \<^verbatim>\<open>#\<close> begins with \<^verbatim>\<open>#\<close> as read, \<^verbatim>\<open>req_file\<close> returns what the
  specification asks for: the trimmed non-blank, non-comment lines in file order.
\<close>

lemma req_file_meets_spec_without_indented_comments:
  assumes "fs (path_join folder filename) = Regular raw"
    and "\<forall>x \<in> set (file_lines raw). startswith (strip x) ''#'' \<longrightarrow> startswith x ''#''"
  shows "req_file fs filename folder = Inr (map strip (filter spec_kept_line (file_lines raw)))"
proof -
  have "kept_line x = spec_kept_line x" if "x \<in> set (file_lines raw)" for x
    using that assms(2) startswith_hash_strip [of x]
    by (auto simp: kept_line_def spec_kept_line_def)
  then have "filter kept_line (file_lines raw) = filter spec_kept_line (file_lines raw)"
    by (intro filter_cong) simp_all
  then show ?thesis using assms(1) req_file_Regular [of fs folder filename raw] by simp
qed

text \<open>
  Claim C2 says that \<^verbatim>\<open>req_file\<close> returns exactly the non-blank, non-comment lines,
  a comment being a line whose trimmed form begins with \<^verbatim>\<open>#\<close>, so that no such line
  appears in the result. The code does not do this: line 77 trims the line for the blank
  test and for the string it returns, but tests \<^verbatim>\<open>startswith("#")\<close> on the untrimmed
  line. In the file below the line \<^verbatim>\<open>"  # pinned\n"\<close> is a comment in the claim's sense,
  and only one line is neither blank nor a comment; yet \<^verbatim>\<open>req_file\<close> returns two
  strings, the first of them the comment, as the requirement \<^verbatim>\<open>"# pinned"\<close>.
\<close>

theorem req_file_keeps_indented_comment:
  "req_file (\<lambda>p. if p = ''requirements/requirements.txt''
                  then Regular (''  # pinned'' @ [LF] @ ''numpy'' @ [LF]) else Absent)
     ''requirements.txt'' ''requirements'' = Inr [''# pinned'', ''numpy'']
   \<and> startswith (strip (''  # pinned'' @ [LF])) ''#''"
  by (simp add: req_file_def readlines_def read_text_def read_bytes_decoded_def bind_def
      path_join_def startswith_def strip_def lstrip_def rstrip_def isspace_def)

lemma bind_Inr: "bind m f = Inr y \<longleftrightarrow> (\<exists>x. m = Inr x \<and> f x = Inr y)"
  by (cases m) (simp_all add: bind_def)

lemma bind_Inl: "bind m f = Inl e \<longleftrightarrow> (m = Inl e \<or> (\<exists>x. m = Inr x \<and> f x = Inl e))"
  by (cases m) (simp_all add: bind_def)

lemma req_file_Inl:
  "req_file fs filename folder = Inl e \<longleftrightarrow>
     (fs (path_join folder filename) = Absent \<and> e = FileNotFoundError (path_join folder filename))
   \<or> (fs (path_join folder filename) = Denied \<and> e = PermissionError (path_join folder filename))"
  by (cases "fs (path_join folder filename)")
     (auto simp: req_file_def readlines_def read_text_def read_bytes_decoded_def bind_def)

lemma req_file_Inl_file_access:
  "req_file fs filename folder = Inl e \<Longrightarrow> is_file_access_error e"
  by (auto simp: req_file_Inl)

subsection \<open>The extras dictionary\<close>

lemma load_list_Inr:
  "load_list fs f h = Inr r \<longleftrightarrow>
     (\<exists>xs. req_file fs f ''requirements'' = Inr xs \<and> r = (length h, h @ [xs]))"
  by (auto simp: load_list_def bind_Inr new_list_def)

lemma load_list_Inl:
  "load_list fs f h = Inl e \<longleftrightarrow> req_file fs f ''requirements'' = Inl e"
  by (auto simp: load_list_def bind_Inl)

lemma build_extras_Inr:
  assumes "build_extras fs h0 = Inr st"
  shows "\<exists>t a c n s p.
      req_file fs ''requirements_test.txt'' ''requirements'' = Inr t
    \<and> req_file fs ''requirements_asr.txt'' ''requirements'' = Inr a
    \<and> req_file fs ''requirements_cv.txt'' ''requirements'' = Inr c
    \<and> req_file fs ''requirements_nlp.txt'' ''requirements'' = Inr n
    \<and> req_file fs ''requirements_tts.txt'' ''requirements'' = Inr s
    \<and> req_file fs ''requirements_text_processing.txt'' ''requirements'' = Inr p
    \<and> st = ([(''test'', length h0), (''asr'', length h0 + 1), (''cv'', length h0 + 2),
             (''nlp'', length h0 + 3), (''tts'', length h0 + 4),
             (''text_processing'', length h0 + 5)], h0 @ [t, a, c, n, s, p])"
  using assms by (auto simp: build_extras_def bind_Inr load_list_Inr)

lemma build_extras_Inl:
  assumes "build_extras fs h0 = Inl e"
  shows "is_file_access_error e"
  using assms by (auto simp: build_extras_def bind_Inl load_list_Inl load_list_Inr dest: req_file_Inl_file_access)

lemma map_of_dict_setitem: "map_of (dict_setitem d k v) = (map_of d)(k \<mapsto> v)"
  by (induction d k v rule: dict_setitem.induct) (auto simp: fun_eq_iff)

lemma dict_keys_setitem:
  "dict_keys (dict_setitem d k v) = (if k \<in> set (dict_keys d) then dict_keys d else dict_keys d @ [k])"
  by (induction d k v rule: dict_setitem.induct) (auto simp: dict_keys_def)

lemma dict_getitem_Inr: "dict_getitem d k = Inr v \<longleftrightarrow> map_of d k = Some v"
  by (auto simp: dict_getitem_def split: option.splits)

lemma wf_state_lookup:
  assumes "wf_state (d, h)" and "map_of d k = Some a"
  shows "a < length h"
proof -
  have "(k, a) \<in> set d" using assms(2) by (rule map_of_SomeD)
  then have "a \<in> set (dict_values d)" by (force simp: dict_values_def)
  then show ?thesis using assms(1) by (simp add: wf_state_def list_all_iff)
qed

lemma cross_link_Inr:
  assumes "cross_link (d, h) = Inr st'"
  shows "\<exists>t a. map_of d ''tts'' = Some t \<and> map_of d ''asr'' = Some a
       \<and> st' = (dict_setitem d ''tts'' (length h), h @ [h ! t @ h ! a])"
  using assms by (auto simp: cross_link_def bind_Inr dict_getitem_Inr new_list_def)

lemma sample_build_extras: "build_extras sample_tree [] = Inr sample_extras"
  by (simp add: build_extras_def load_list_def new_list_def bind_def req_file_def readlines_def
      read_text_def read_bytes_decoded_def sample_tree_def tree_def path_join_def startswith_def
      strip_def lstrip_def rstrip_def isspace_def sample_extras_def)

lemma sample_flatten_all:
  "flatten_all sample_extras =
     ([(''test'', 0), (''asr'', 1), (''cv'', 2), (''nlp'', 3), (''tts'', 4),
       (''text_processing'', 5), (''all'', 6)],
      [[''pytest''], [''librosa'', ''numpy''], [''pillow''], [''numpy''], [''pypinyin''],
       [''regex''],
       [''pytest'', ''librosa'', ''numpy'', ''pillow'', ''numpy'', ''pypinyin'', ''regex'']])"
  by (simp add: sample_extras_def flatten_all_def new_list_def dict_values_def)

text \<open>
  The state of the script when line 95 runs refers to objects of its heap only, so the
  frame property below applies to it.
\<close>

lemma script_state_wf:
  assumes "build_extras fs h0 = Inr st"
  shows "wf_state st \<and> wf_state (flatten_all st)"
proof -
  obtain t a c n s p where
    st: "st = ([(''test'', length h0), (''asr'', length h0 + 1), (''cv'', length h0 + 2),
             (''nlp'', length h0 + 3), (''tts'', length h0 + 4),
             (''text_processing'', length h0 + 5)], h0 @ [t, a, c, n, s, p])"
    using build_extras_Inr [OF assms] by blast
  show ?thesis
    by (simp add: st wf_state_def flatten_all_def new_list_def dict_values_def)
qed

text \<open>
  Claim C3. When the six requirement files have been loaded, the dictionary holds the
  groups test, asr, cv, nlp, tts and text_processing, in this order, and nothing else.
  The assignment of line 92 adds the key all last; its list is the concatenation of the
  six lists in that order, duplicates kept, and its length is the sum of their lengths.
\<close>

theorem all_group_at_assembly:
  assumes "build_extras fs h0 = Inr st"
  shows "\<exists>test asr cv nlp tts text_processing all.
      group_list st ''test'' = Some test \<and> group_list st ''asr'' = Some asr
    \<and> group_list st ''cv'' = Some cv \<and> group_list st ''nlp'' = Some nlp
    \<and> group_list st ''tts'' = Some tts \<and> group_list st ''text_processing'' = Some text_processing
    \<and> dict_keys (fst st) = [''test'', ''asr'', ''cv'', ''nlp'', ''tts'', ''text_processing'']
    \<and> dict_keys (fst (flatten_all st)) =
        [''test'', ''asr'', ''cv'', ''nlp'', ''tts'', ''text_processing'', ''all'']
    \<and> group_list (flatten_all st) ''all'' = Some all
    \<and> all = test @ asr @ cv @ nlp @ tts @ text_processing
    \<and> length all = length test + length asr + length cv + length nlp + length tts
        + length text_processing"
proof -
  obtain t a c n s p where
    st: "st = ([(''test'', length h0), (''asr'', length h0 + 1), (''cv'', length h0 + 2),
             (''nlp'', length h0 + 3), (''tts'', length h0 + 4),
             (''text_processing'', length h0 + 5)], h0 @ [t, a, c, n, s, p])"
    using build_extras_Inr [OF assms] by blast
  have g: "group_list st ''test'' = Some t" "group_list st ''asr'' = Some a" "group_list st ''cv'' = Some c"
    "group_list st ''nlp'' = Some n" "group_list st ''tts'' = Some s" "group_list st ''text_processing'' = Some p"
    by (simp_all add: st group_list_def nth_append)
  have k: "dict_keys (fst st) = [''test'', ''asr'', ''cv'', ''nlp'', ''tts'', ''text_processing'']"
    by (simp add: st dict_keys_def)
  have f: "flatten_all st = (fst st @ [(''all'', length h0 + 6)], snd st @ [t @ a @ c @ n @ s @ p])"
    by (simp add: st flatten_all_def new_list_def dict_values_def nth_append)
  have k': "dict_keys (fst (flatten_all st)) =
        [''test'', ''asr'', ''cv'', ''nlp'', ''tts'', ''text_processing'', ''all'']"
    unfolding f by (simp add: st dict_keys_def)
  have al: "group_list (flatten_all st) ''all'' = Some (t @ a @ c @ n @ s @ p)"
    unfolding f by (simp add: st group_list_def nth_append)
  show ?thesis using g k k' al by simp
qed

text \<open>The sample tree: numpy is listed by two groups and occurs twice in all.\<close>

theorem all_group_at_assembly_witness:
  "build_extras sample_tree [] = Inr sample_extras
   \<and> group_list (flatten_all sample_extras) ''all''
       = Some [''pytest'', ''librosa'', ''numpy'', ''pillow'', ''numpy'', ''pypinyin'', ''regex'']"
  using sample_build_extras all_group_at_assembly [OF sample_build_extras]
  by (auto simp: group_list_def sample_extras_def)

text \<open>
  Claim C4. In any state that has a tts and an asr group, the cross-link step of line 95
  succeeds, and afterwards the tts group is its entries from before the step followed by
  the entries of the asr group, both in their order. Nothing after line 95 writes to the
  dictionary; \<open>final_groups\<close> below gives the groups of the finished module.
\<close>

theorem cross_link_appends_asr:
  assumes "group_list st ''tts'' = Some tts" and "group_list st ''asr'' = Some asr"
  shows "\<exists>st'. cross_link st = Inr st' \<and> group_list st' ''tts'' = Some (tts @ asr)"
proof -
  obtain d h where st: "st = (d, h)" by (cases st)
  obtain t where t: "map_of d ''tts'' = Some t" "h ! t = tts"
    using assms(1) by (auto simp: st group_list_def split: option.splits)
  obtain a where a: "map_of d ''asr'' = Some a" "h ! a = asr"
    using assms(2) by (auto simp: st group_list_def split: option.splits)
  have "cross_link st = Inr (dict_setitem d ''tts'' (length h), h @ [tts @ asr])"
    using t a by (simp add: st cross_link_def bind_def dict_getitem_def new_list_def)
  moreover have "group_list (dict_setitem d ''tts'' (length h), h @ [tts @ asr]) ''tts'' = Some (tts @ asr)"
    by (simp add: group_list_def map_of_dict_setitem)
  ultimately show ?thesis by simp
qed

text \<open>The state of the script on the sample tree when line 95 runs.\<close>

theorem cross_link_appends_asr_witness:
  "group_list (flatten_all sample_extras) ''tts'' = Some [''pypinyin'']
   \<and> group_list (flatten_all sample_extras) ''asr'' = Some [''librosa'', ''numpy'']
   \<and> (\<exists>st'. cross_link (flatten_all sample_extras) = Inr st'
          \<and> group_list st' ''tts'' = Some [''pypinyin'', ''librosa'', ''numpy''])"
  using cross_link_appends_asr [of "flatten_all sample_extras" "[''pypinyin'']"
      "[''librosa'', ''numpy'']"]
  by (simp add: sample_flatten_all group_list_def)

text \<open>
  Claim C10. The cross-link step changes the dictionary at the key tts only: every other
  key (all, asr, test, cv, nlp, text_processing among them) refers to the same list
  object as before and that object has the same entries, so the all group gains nothing.
  The step writes to no existing object: every object of the heap before the step is
  unchanged after it, the old tts list included. The list tts refers to afterwards is a
  new object, at an address no object had before, and the keys keep their order.
\<close>

theorem cross_link_frame:
  assumes "wf_state st" and "cross_link st = Inr st'"
  shows "(\<forall>k. k \<noteq> ''tts'' \<longrightarrow> map_of (fst st') k = map_of (fst st) k \<and> group_list st' k = group_list st k)
       \<and> (\<forall>a. a < length (snd st) \<longrightarrow> snd st' ! a = snd st ! a)
       \<and> map_of (fst st') ''tts'' = Some (length (snd st))
       \<and> length (snd st') = Suc (length (snd st))
       \<and> dict_keys (fst st') = dict_keys (fst st)"
proof -
  obtain d h where st: "st = (d, h)" by (cases st)
  obtain t a where ta: "map_of d ''tts'' = Some t" "map_of d ''asr'' = Some a"
    and st': "st' = (dict_setitem d ''tts'' (length h), h @ [h ! t @ h ! a])"
    using assms(2) cross_link_Inr unfolding st by blast
  have old: "\<forall>x. x < length h \<longrightarrow> (h @ [h ! t @ h ! a]) ! x = h ! x"
    by (simp add: nth_append)
  have keys: "dict_keys (dict_setitem d ''tts'' (length h)) = dict_keys d"
  proof -
    have "(''tts'', t) \<in> set d" using ta(1) by (rule map_of_SomeD)
    then have "''tts'' \<in> set (dict_keys d)" by (force simp: dict_keys_def)
    then show ?thesis by (simp add: dict_keys_setitem)
  qed
  have frame: "map_of (fst st') k = map_of (fst st) k \<and> group_list st' k = group_list st k"
    if "k \<noteq> ''tts''" for k
  proof -
    have m: "map_of (fst st') k = map_of d k"
      using that by (simp add: st' map_of_dict_setitem)
    show ?thesis
    proof (cases "map_of d k")
      case None
      then show ?thesis using m by (simp add: st group_list_def)
    next
      case (Some x)
      then have "x < length h" using assms(1) wf_state_lookup unfolding st by blast
      then show ?thesis using m Some old by (simp add: st st' group_list_def)
    qed
  qed
  show ?thesis using frame old keys by (simp add: st st' map_of_dict_setitem)
qed

text \<open>
  The state of the script on the sample tree when line 95 runs: afterwards tts refers to
  the new object 7, and the all group holds the asr entries once, as before.
\<close>

theorem cross_link_frame_witness:
  "wf_state (flatten_all sample_extras)
   \<and> cross_link (flatten_all sample_extras)
       = Inr ([(''test'', 0), (''asr'', 1), (''cv'', 2), (''nlp'', 3), (''tts'', 7),
               (''text_processing'', 5), (''all'', 6)],
              [[''pytest''], [''librosa'', ''numpy''], [''pillow''], [''numpy''], [''pypinyin''],
               [''regex''],
               [''pytest'', ''librosa'', ''numpy'', ''pillow'', ''numpy'', ''pypinyin'', ''regex''],
               [''pypinyin'', ''librosa'', ''numpy'']])
   \<and> group_list ([(''test'', 0), (''asr'', 1), (''cv'', 2), (''nlp'', 3), (''tts'', 7),
               (''text_processing'', 5), (''all'', 6)],
              [[''pytest''], [''librosa'', ''numpy''], [''pillow''], [''numpy''], [''pypinyin''],
               [''regex''],
               [''pytest'', ''librosa'', ''numpy'', ''pillow'', ''numpy'', ''pypinyin'', ''regex''],
               [''pypinyin'', ''librosa'', ''numpy'']]) ''all''
       = Some [''pytest'', ''librosa'', ''numpy'', ''pillow'', ''numpy'', ''pypinyin'', ''regex'']"
proof -
  have w: "wf_state (flatten_all sample_extras)"
    by (simp add: sample_flatten_all wf_state_def dict_values_def)
  have c: "cross_link (flatten_all sample_extras)
       = Inr ([(''test'', 0), (''asr'', 1), (''cv'', 2), (''nlp'', 3), (''tts'', 7),
               (''text_processing'', 5), (''all'', 6)],
              [[''pytest''], [''librosa'', ''numpy''], [''pillow''], [''numpy''], [''pypinyin''],
               [''regex''],
               [''pytest'', ''librosa'', ''numpy'', ''pillow'', ''numpy'', ''pypinyin'', ''regex''],
               [''pypinyin'', ''librosa'', ''numpy'']])"
    by (simp add: sample_flatten_all cross_link_def bind_def dict_getitem_def new_list_def)
  show ?thesis using w c cross_link_frame [OF w c] by (simp add: sample_flatten_all group_list_def)
qed

subsection \<open>The dependency-loading part of the script as a whole\<close>

lemma cross_link_after_build:
  assumes "build_extras fs h0 = Inr st"
  shows "\<exists>t a c n s p.
      st = ([(''test'', length h0), (''asr'', length h0 + 1), (''cv'', length h0 + 2),
             (''nlp'', length h0 + 3), (''tts'', length h0 + 4),
             (''text_processing'', length h0 + 5)], h0 @ [t, a, c, n, s, p])
    \<and> cross_link (flatten_all st) =
        Inr ([(''test'', length h0), (''asr'', length h0 + 1), (''cv'', length h0 + 2),
              (''nlp'', length h0 + 3), (''tts'', length h0 + 7),
              (''text_processing'', length h0 + 5), (''all'', length h0 + 6)],
             h0 @ [t, a, c, n, s, p, t @ a @ c @ n @ s @ p, s @ a])"
proof -
  obtain t a c n s p where
    st: "st = ([(''test'', length h0), (''asr'', length h0 + 1), (''cv'', length h0 + 2),
             (''nlp'', length h0 + 3), (''tts'', length h0 + 4),
             (''text_processing'', length h0 + 5)], h0 @ [t, a, c, n, s, p])"
    using build_extras_Inr [OF assms] by blast
  have f: "flatten_all st = (fst st @ [(''all'', length h0 + 6)], snd st @ [t @ a @ c @ n @ s @ p])"
    by (simp add: st flatten_all_def new_list_def dict_values_def nth_append)
  have "cross_link (flatten_all st) =
        Inr ([(''test'', length h0), (''asr'', length h0 + 1), (''cv'', length h0 + 2),
              (''nlp'', length h0 + 3), (''tts'', length h0 + 7),
              (''text_processing'', length h0 + 5), (''all'', length h0 + 6)],
             h0 @ [t, a, c, n, s, p, t @ a @ c @ n @ s @ p, s @ a])"
    unfolding f by (simp add: st cross_link_def bind_def dict_getitem_def new_list_def nth_append)
  then show ?thesis using st by blast
qed

lemma dependency_loading_Inl:
  assumes "dependency_loading fs h0 = Inl e"
  shows "is_file_access_error e"
proof -
  consider (install) "load_list fs ''requirements.txt'' h0 = Inl e"
    | (extras) i h1 where "load_list fs ''requirements.txt'' h0 = Inr (i, h1)"
        "build_extras fs h1 = Inl e"
    | (rest) i h1 st where "load_list fs ''requirements.txt'' h0 = Inr (i, h1)"
        "build_extras fs h1 = Inr st"
        "bind (cross_link (flatten_all st)) (\<lambda>(d, h). bind (dict_getitem d ''test'') (\<lambda>tests.
           Inr \<lparr>install_requires = i, extras_require = d, tests_requirements = tests,
                objects = h\<rparr>)) = Inl e"
    using assms by (auto simp: dependency_loading_def bind_Inl)
  then show ?thesis
  proof cases
    case install
    then show ?thesis by (simp add: load_list_Inl req_file_Inl_file_access)
  next
    case extras
    then show ?thesis by (simp add: build_extras_Inl)
  next
    case rest
    obtain st' where "cross_link (flatten_all st) = Inr st'"
      "map_of (fst st') ''test'' = Some (length h1)"
      using cross_link_after_build [OF rest(2)] by auto
    then have False using rest(3) by (cases st') (simp add: bind_def dict_getitem_def)
    then show ?thesis ..
  qed
qed

lemma dependency_loading_Inr:
  assumes "dependency_loading fs h0 = Inr g"
  shows "\<exists>i t a c n s p.
      req_file fs ''requirements.txt'' ''requirements'' = Inr i
    \<and> req_file fs ''requirements_test.txt'' ''requirements'' = Inr t
    \<and> req_file fs ''requirements_asr.txt'' ''requirements'' = Inr a
    \<and> req_file fs ''requirements_cv.txt'' ''requirements'' = Inr c
    \<and> req_file fs ''requirements_nlp.txt'' ''requirements'' = Inr n
    \<and> req_file fs ''requirements_tts.txt'' ''requirements'' = Inr s
    \<and> req_file fs ''requirements_text_processing.txt'' ''requirements'' = Inr p
    \<and> install_requires g = length h0
    \<and> tests_requirements g = length h0 + 1
    \<and> extras_require g =
        [(''test'', length h0 + 1), (''asr'', length h0 + 2), (''cv'', length h0 + 3),
         (''nlp'', length h0 + 4), (''tts'', length h0 + 8),
         (''text_processing'', length h0 + 6), (''all'', length h0 + 7)]
    \<and> objects g = h0 @ [i, t, a, c, n, s, p, t @ a @ c @ n @ s @ p, s @ a]"
proof -
  obtain i st st' tests where
    i: "req_file fs ''requirements.txt'' ''requirements'' = Inr i"
    and b: "build_extras fs (h0 @ [i]) = Inr st"
    and c: "cross_link (flatten_all st) = Inr st'"
    and t: "dict_getitem (fst st') ''test'' = Inr tests"
    and g: "g = \<lparr>install_requires = length h0, extras_require = fst st',
                 tests_requirements = tests, objects = snd st'\<rparr>"
    using assms by (auto simp: dependency_loading_def bind_Inr load_list_Inr)
  show ?thesis
    using build_extras_Inr [OF b] cross_link_after_build [OF b] i c t g
    by (auto simp: dict_getitem_def)
qed

text \<open>
  The finished module, from the files: every group is the list its file gave, but tts,
  which is followed by the asr entries, and all, which holds the six lists as loaded.
  \<^verbatim>\<open>tests_requirements\<close> is the list object of the test group itself.
\<close>

lemma final_groups:
  assumes "dependency_loading fs h0 = Inr g"
  shows "\<exists>i t a c n s p.
      req_file fs ''requirements.txt'' ''requirements'' = Inr i
    \<and> req_file fs ''requirements_test.txt'' ''requirements'' = Inr t
    \<and> req_file fs ''requirements_asr.txt'' ''requirements'' = Inr a
    \<and> req_file fs ''requirements_cv.txt'' ''requirements'' = Inr c
    \<and> req_file fs ''requirements_nlp.txt'' ''requirements'' = Inr n
    \<and> req_file fs ''requirements_tts.txt'' ''requirements'' = Inr s
    \<and> req_file fs ''requirements_text_processing.txt'' ''requirements'' = Inr p
    \<and> objects g ! install_requires g = i
    \<and> objects g ! tests_requirements g = t
    \<and> map_of (extras_require g) ''test'' = Some (tests_requirements g)
    \<and> dict_keys (extras_require g) =
        [''test'', ''asr'', ''cv'', ''nlp'', ''tts'', ''text_processing'', ''all'']
    \<and> final_group g ''test'' = Some t
    \<and> final_group g ''asr'' = Some a
    \<and> final_group g ''cv'' = Some c
    \<and> final_group g ''nlp'' = Some n
    \<and> final_group g ''tts'' = Some (s @ a)
    \<and> final_group g ''text_processing'' = Some p
    \<and> final_group g ''all'' = Some (t @ a @ c @ n @ s @ p)"
proof -
  obtain i t a c n s p where f:
    "req_file fs ''requirements.txt'' ''requirements'' = Inr i"
    "req_file fs ''requirements_test.txt'' ''requirements'' = Inr t"
    "req_file fs ''requirements_asr.txt'' ''requirements'' = Inr a"
    "req_file fs ''requirements_cv.txt'' ''requirements'' = Inr c"
    "req_file fs ''requirements_nlp.txt'' ''requirements'' = Inr n"
    "req_file fs ''requirements_tts.txt'' ''requirements'' = Inr s"
    "req_file fs ''requirements_text_processing.txt'' ''requirements'' = Inr p"
    and g: "install_requires g = length h0" "tests_requirements g = length h0 + 1"
    "extras_require g =
        [(''test'', length h0 + 1), (''asr'', length h0 + 2), (''cv'', length h0 + 3),
         (''nlp'', length h0 + 4), (''tts'', length h0 + 8),
         (''text_processing'', length h0 + 6), (''all'', length h0 + 7)]"
    "objects g = h0 @ [i, t, a, c, n, s, p, t @ a @ c @ n @ s @ p, s @ a]"
    using dependency_loading_Inr [OF assms] by blast
  have "objects g ! install_requires g = i" "objects g ! tests_requirements g = t"
    "map_of (extras_require g) ''test'' = Some (tests_requirements g)"
    "dict_keys (extras_require g) =
        [''test'', ''asr'', ''cv'', ''nlp'', ''tts'', ''text_processing'', ''all'']"
    "final_group g ''test'' = Some t" "final_group g ''asr'' = Some a"
    "final_group g ''cv'' = Some c" "final_group g ''nlp'' = Some n"
    "final_group g ''tts'' = Some (s @ a)" "final_group g ''text_processing'' = Some p"
    "final_group g ''all'' = Some (t @ a @ c @ n @ s @ p)"
    by (simp_all add: g final_group_def group_list_def dict_keys_def nth_append)
  then show ?thesis using f by blast
qed

text \<open>With the seven requirement files readable, the dependency loading returns.\<close>

lemma dependency_loading_succeeds:
  assumes "\<forall>f \<in> set [''requirements.txt'', ''requirements_test.txt'',
            ''requirements_asr.txt'', ''requirements_cv.txt'', ''requirements_nlp.txt'',
            ''requirements_tts.txt'', ''requirements_text_processing.txt''].
           \<exists>raw. fs (path_join ''requirements'' f) = Regular raw"
  shows "\<exists>g. dependency_loading fs h0 = Inr g"
proof -
  have ok: "\<exists>xs. req_file fs f ''requirements'' = Inr xs"
    if "f \<in> set [''requirements.txt'', ''requirements_test.txt'',
            ''requirements_asr.txt'', ''requirements_cv.txt'', ''requirements_nlp.txt'',
            ''requirements_tts.txt'', ''requirements_text_processing.txt'']" for f
    using assms that req_file_Regular by blast
  obtain i where i: "load_list fs ''requirements.txt'' h0 = Inr (length h0, h0 @ [i])"
    using ok [of "''requirements.txt''"] by (auto simp: load_list_Inr)
  have "\<exists>st. build_extras fs (h0 @ [i]) = Inr st"
    using ok [of "''requirements_test.txt''"] ok [of "''requirements_asr.txt''"]
      ok [of "''requirements_cv.txt''"] ok [of "''requirements_nlp.txt''"]
      ok [of "''requirements_tts.txt''"] ok [of "''requirements_text_processing.txt''"]
    by (auto simp: build_extras_def load_list_def bind_def new_list_def)
  then obtain st where b: "build_extras fs (h0 @ [i]) = Inr st" by blast
  obtain st' where c: "cross_link (flatten_all st) = Inr st'"
      "map_of (fst st') ''test'' = Some (length (h0 @ [i]))"
    using cross_link_after_build [OF b] by auto
  show ?thesis
    using i b c by (cases st') (simp add: dependency_loading_def bind_def dict_getitem_def)
qed

text \<open>
  Claim C8. When the file \<^verbatim>\<open>os.path.join(folder, filename)\<close> does not exist or may not
  be read, \<^verbatim>\<open>req_file\<close> raises: \<^verbatim>\<open>FileNotFoundError\<close> for a missing file,
  \<^verbatim>\<open>PermissionError\<close> for an unreadable one, both file-access errors. It returns no
  list, partial or otherwise. Nothing catches the exception: when the file is one of the
  seven the script loads, the dependency-loading part of the script ends with a
  file-access error instead of reaching line 97. \<^verbatim>\<open>req_file\<close> only reads: it is a
  function of the file system and has no state to change.
\<close>

theorem req_file_unreadable_raises:
  assumes "fs (path_join folder filename) = Absent \<or> fs (path_join folder filename) = Denied"
  shows "req_file fs filename folder =
           Inl (if fs (path_join folder filename) = Absent
                then FileNotFoundError (path_join folder filename)
                else PermissionError (path_join folder filename))
       \<and> (\<exists>e. req_file fs filename folder = Inl e \<and> is_file_access_error e)
       \<and> (folder = ''requirements'' \<and>
          filename \<in> set [''requirements.txt'', ''requirements_test.txt'',
            ''requirements_asr.txt'', ''requirements_cv.txt'', ''requirements_nlp.txt'',
            ''requirements_tts.txt'', ''requirements_text_processing.txt'']
          \<longrightarrow> (\<exists>e. dependency_loading fs h0 = Inl e \<and> is_file_access_error e))"
proof -
  have r: "req_file fs filename folder =
           Inl (if fs (path_join folder filename) = Absent
                then FileNotFoundError (path_join folder filename)
                else PermissionError (path_join folder filename))"
    using assms by (auto simp: req_file_Inl)
  have d: "\<exists>e. dependency_loading fs h0 = Inl e \<and> is_file_access_error e"
    if "folder = ''requirements''"
      and "filename \<in> set [''requirements.txt'', ''requirements_test.txt'',
            ''requirements_asr.txt'', ''requirements_cv.txt'', ''requirements_nlp.txt'',
            ''requirements_tts.txt'', ''requirements_text_processing.txt'']"
  proof (cases "dependency_loading fs h0")
    case (Inl e)
    then show ?thesis using dependency_loading_Inl by blast
  next
    case (Inr g)
    then have False using dependency_loading_Inr [OF Inr] r that by auto
    then show ?thesis ..
  qed
  show ?thesis using r d by auto
qed

text \<open>An empty source tree, and the sample tree with one unreadable requirement file.\<close>

theorem req_file_unreadable_raises_witness:
  "tree [] (path_join ''requirements'' ''requirements.txt'') = Absent
   \<and> req_file (tree []) ''requirements.txt'' ''requirements''
       = Inl (FileNotFoundError ''requirements/requirements.txt'')
   \<and> (\<exists>e. dependency_loading (tree []) [] = Inl e \<and> is_file_access_error e)
   \<and> (sample_tree(''requirements/requirements_nlp.txt'' := Denied))
        (path_join ''requirements'' ''requirements_nlp.txt'') = Denied
   \<and> req_file (sample_tree(''requirements/requirements_nlp.txt'' := Denied))
        ''requirements_nlp.txt'' ''requirements''
       = Inl (PermissionError ''requirements/requirements_nlp.txt'')
   \<and> (\<exists>e. dependency_loading (sample_tree(''requirements/requirements_nlp.txt'' := Denied)) []
          = Inl e \<and> is_file_access_error e)"
  using req_file_unreadable_raises [of "tree []" "''requirements''" "''requirements.txt''" "[]"]
    req_file_unreadable_raises [of "sample_tree(''requirements/requirements_nlp.txt'' := Denied)"
      "''requirements''" "''requirements_nlp.txt''" "[]"]
  by (simp add: tree_def path_join_def startswith_def)

subsection \<open>The long description\<close>

text \<open>
  Claim C6, as the code has it. The selection tests existence and then reads; the six
  cases below cover every file system:
  \<^item> \<^verbatim>\<open>nemo/README.md\<close> exists and is readable: its contents, read in text mode, with
    \<^verbatim>\<open>text/markdown\<close>;
  \<^item> \<^verbatim>\<open>nemo/README.md\<close> exists and may not be read: the file-access error propagates
    and no fallback is tried;
  \<^item> \<^verbatim>\<open>nemo/README.md\<close> does not exist and \<^verbatim>\<open>README.rst\<close> does: the file
    \<^verbatim>\<open>README.rst\<close> of the script's directory is read. When it is readable, its contents
    are used with \<^verbatim>\<open>text/x-rst\<close>; when it may not be read, or is not there, the
    file-access error (\<^verbatim>\<open>PermissionError\<close>, \<^verbatim>\<open>FileNotFoundError\<close>) propagates and the
    plain-text fallback is not tried;
  \<^item> neither exists: the text \<^verbatim>\<open>'See ' + __homepage__\<close> with \<^verbatim>\<open>text/plain\<close>.
\<close>

theorem long_description_fallback:
  "(\<forall>s. fs ''nemo/README.md'' = Regular s \<longrightarrow>
        long_description fs here homepage = Inr (universal_newlines s, ''text/markdown''))
   \<and> (fs ''nemo/README.md'' = Denied \<longrightarrow>
        long_description fs here homepage = Inl (PermissionError ''nemo/README.md''))
   \<and> (\<forall>s. fs ''nemo/README.md'' = Absent \<and> fs ''README.rst'' \<noteq> Absent
          \<and> fs (path_join here ''README.rst'') = Regular s \<longrightarrow>
        long_description fs here homepage = Inr (s, ''text/x-rst''))
   \<and> (fs ''nemo/README.md'' = Absent \<and> fs ''README.rst'' \<noteq> Absent
          \<and> fs (path_join here ''README.rst'') = Denied \<longrightarrow>
        long_description fs here homepage = Inl (PermissionError (path_join here ''README.rst'')))
   \<and> (fs ''nemo/README.md'' = Absent \<and> fs ''README.rst'' \<noteq> Absent
          \<and> fs (path_join here ''README.rst'') = Absent \<longrightarrow>
        long_description fs here homepage = Inl (FileNotFoundError (path_join here ''README.rst'')))
   \<and> (fs ''nemo/README.md'' = Absent \<and> fs ''README.rst'' = Absent \<longrightarrow>
        long_description fs here homepage = Inr (''See '' @ homepage, ''text/plain''))"
  by (simp add: long_description_def exists_def read_text_def read_bytes_decoded_def bind_def)

text \<open>
  One source tree for each of the six cases. In the fifth, \<^verbatim>\<open>README.rst\<close> is found from
  the current directory and the script's directory \<^verbatim>\<open>/repo\<close> has none.
\<close>

theorem long_description_fallback_witness:
  "long_description (tree [(''nemo/README.md'', Regular (''# NeMo'' @ [CR, LF]))]) ''/repo''
      ''https://github.com/nvidia/nemo'' = Inr (''# NeMo'' @ [LF], ''text/markdown'')
   \<and> long_description (tree [(''nemo/README.md'', Denied)]) ''/repo''
      ''https://github.com/nvidia/nemo'' = Inl (PermissionError ''nemo/README.md'')
   \<and> long_description sample_tree ''/repo'' ''https://github.com/nvidia/nemo''
       = Inr (''NeMo'' @ [CR, LF], ''text/x-rst'')
   \<and> long_description (tree [(''README.rst'', Regular ''NeMo''), (''/repo/README.rst'', Denied)])
      ''/repo'' ''https://github.com/nvidia/nemo'' = Inl (PermissionError ''/repo/README.rst'')
   \<and> long_description (tree [(''README.rst'', Regular ''NeMo'')])
      ''/repo'' ''https://github.com/nvidia/nemo'' = Inl (FileNotFoundError ''/repo/README.rst'')
   \<and> long_description (tree []) ''/repo'' ''https://github.com/nvidia/nemo''
       = Inr (''See https://github.com/nvidia/nemo'', ''text/plain'')"
  using long_description_fallback [of "tree [(''nemo/README.md'', Regular (''# NeMo'' @ [CR, LF]))]"
          "''/repo''" "''https://github.com/nvidia/nemo''"]
        long_description_fallback [of "tree [(''nemo/README.md'', Denied)]"
          "''/repo''" "''https://github.com/nvidia/nemo''"]
        long_description_fallback [of sample_tree "''/repo''" "''https://github.com/nvidia/nemo''"]
        long_description_fallback [of "tree [(''README.rst'', Regular ''NeMo''), (''/repo/README.rst'', Denied)]"
          "''/repo''" "''https://github.com/nvidia/nemo''"]
        long_description_fallback [of "tree [(''README.rst'', Regular ''NeMo'')]"
          "''/repo''" "''https://github.com/nvidia/nemo''"]
        long_description_fallback [of "tree []" "''/repo''" "''https://github.com/nvidia/nemo''"]
  by (simp add: tree_def sample_tree_def path_join_def startswith_def)

text \<open>
  Claim C6 as stated fails: here \<^verbatim>\<open>nemo/README.md\<close> exists, yet its contents are not
  used. The file may not be read, \<^verbatim>\<open>open\<close> raises, and the script ends there although
  a readable \<^verbatim>\<open>README.rst\<close> is present.
\<close>

theorem long_description_unreadable_markdown:
  "exists (tree [(''nemo/README.md'', Denied), (''README.rst'', Regular ''NeMo''),
                 (''/repo/README.rst'', Regular ''NeMo'')]) ''nemo/README.md''
   \<and> long_description (tree [(''nemo/README.md'', Denied), (''README.rst'', Regular ''NeMo''),
                 (''/repo/README.rst'', Regular ''NeMo'')]) ''/repo'' ''https://github.com/nvidia/nemo''
       = Inl (PermissionError ''nemo/README.md'')"
  by (simp add: long_description_def exists_def read_text_def read_bytes_decoded_def bind_def tree_def)

subsection \<open>The style command\<close>

lemma isort_tokens:
  "split ISORT_BASE = [''isort'', ''--multi-line=3'', ''--trailing-comma'', ''--force-grid-wrap=0'',
     ''--use-parentheses'', ''--line-width=119'', ''-rc'', ''-ws'']"
  by (simp add: split_def ISORT_BASE_def LINE_WIDTH_def str_nat.simps isspace_def)

lemma black_tokens:
  "split BLACK_BASE = [''black'', ''--skip-string-normalization'', ''--line-length=119'']"
  by (simp add: split_def BLACK_BASE_def LINE_WIDTH_def str_nat.simps isspace_def)

lemma call_checker_result:
  "call_checker exec base_command sc check p =
     (fst (exec (checker_command base_command sc check) (world p)),
      p\<lparr>world := snd (exec (checker_command base_command sc check) (world p)),
        calls := calls p @ [checker_command base_command sc check],
        logged := logged p @
          [(INFO, ''Running command: '' @ join '' '' (checker_command base_command sc check))]\<rparr>)"
  by (simp add: call_checker_def subprocess_call_def logger_info_def Let_def split: prod.splits)

lemma run_calls:
  "calls (snd (run exec self p)) =
     calls p @ [checker_command (split ISORT_BASE) (scope self) (\<not> truthy (fix self))] @
     (case fst (exec (checker_command (split ISORT_BASE) (scope self) (\<not> truthy (fix self)))
                  (world p)) of
        Inl e \<Rightarrow> []
      | Inr i \<Rightarrow> [checker_command (split BLACK_BASE) (scope self) (\<not> truthy (fix self))])"
  by (simp add: run_def isort_def black_def call_checker_result pass_def fail_def
      logger_info_def logger_error_def Let_def split: sum.splits)

text \<open>
  Claim C1. Whatever exit codes the two tools return, \<^verbatim>\<open>run\<close> returns normally exactly
  when both are 0, and then its last log record is the PASS message. Otherwise its last
  log record is the FAIL message and it raises \<^verbatim>\<open>SystemExit\<close> with the exit code of
  \<^verbatim>\<open>isort\<close> when that is not 0, and with the exit code of \<^verbatim>\<open>black\<close> when it is. The
  code raised is never 0.
\<close>

theorem run_exit_code:
  assumes "exec (checker_command (split ISORT_BASE) (scope self) (\<not> truthy (fix self))) (world p)
             = (Inr isort_return, w1)"
      and "exec (checker_command (split BLACK_BASE) (scope self) (\<not> truthy (fix self))) w1
             = (Inr black_return, w2)"
  shows "fst (run exec self p) =
           (if isort_return = 0 \<and> black_return = 0 then Inr ()
            else Inl (SystemExit (if isort_return \<noteq> 0 then isort_return else black_return)))
       \<and> last (logged (snd (run exec self p))) =
           (if isort_return = 0 \<and> black_return = 0
            then (INFO, [ESC] @ ''[32mPASS'' @ [ESC] @ ''[0m'')
            else (ERROR, [ESC] @ ''[31mFAIL'' @ [ESC] @ ''[0m''))
       \<and> fst (run exec self p) \<noteq> Inl (SystemExit 0)"
  using assms
  by (simp add: run_def isort_def black_def call_checker_result pass_def fail_def
      logger_info_def logger_error_def Let_def)

text \<open>Both tools pass; both fail; only the second fails.\<close>

theorem run_exit_code_witness:
  "fst (run (tools_exiting 0 0) \<lparr>scope = ''nemo'', fix = PyInt 1\<rparr>
          \<lparr>world = 0, calls = [], logged = []\<rparr>) = Inr ()
   \<and> fst (run (tools_exiting 2 1) \<lparr>scope = ''nemo'', fix = PyInt 1\<rparr>
          \<lparr>world = 0, calls = [], logged = []\<rparr>) = Inl (SystemExit 2)
   \<and> fst (run (tools_exiting 0 123) \<lparr>scope = ''nemo'', fix = PyInt 1\<rparr>
          \<lparr>world = 0, calls = [], logged = []\<rparr>) = Inl (SystemExit 123)"
  using run_exit_code [of "tools_exiting 0 0" "\<lparr>scope = ''nemo'', fix = PyInt 1\<rparr>"
          "\<lparr>world = 0, calls = [], logged = []\<rparr>" 0 1 0 2]
        run_exit_code [of "tools_exiting 2 1" "\<lparr>scope = ''nemo'', fix = PyInt 1\<rparr>"
          "\<lparr>world = 0, calls = [], logged = []\<rparr>" 2 1 1 2]
        run_exit_code [of "tools_exiting 0 123" "\<lparr>scope = ''nemo'', fix = PyInt 1\<rparr>"
          "\<lparr>world = 0, calls = [], logged = []\<rparr>" 0 1 123 2]
  by (simp add: tools_exiting_def checker_command_def isort_tokens black_tokens)

text \<open>
  Claim C7. Whenever \<^verbatim>\<open>isort\<close> has run and returned an exit code, zero or not,
  \<^verbatim>\<open>run\<close> makes exactly two subprocess calls, \<^verbatim>\<open>isort\<close> first and \<^verbatim>\<open>black\<close>
  second, and \<^verbatim>\<open>black\<close> runs in the world \<^verbatim>\<open>isort\<close> has left.
\<close>

theorem black_runs_after_isort:
  assumes "exec (checker_command (split ISORT_BASE) (scope self) (\<not> truthy (fix self))) (world p)
             = (Inr isort_return, w1)"
  shows "calls (snd (run exec self p)) =
           calls p @ [checker_command (split ISORT_BASE) (scope self) (\<not> truthy (fix self)),
                      checker_command (split BLACK_BASE) (scope self) (\<not> truthy (fix self))]
       \<and> world (snd (run exec self p)) =
           snd (exec (checker_command (split BLACK_BASE) (scope self) (\<not> truthy (fix self))) w1)"
  using assms
  by (simp add: run_def isort_def black_def call_checker_result pass_def fail_def
      logger_info_def logger_error_def Let_def split: sum.splits)

text \<open>The first tool fails with exit code 2; the second has run all the same.\<close>

theorem black_runs_after_isort_witness:
  "calls (snd (run (tools_exiting 2 0) \<lparr>scope = ''nemo'', fix = PyInt 1\<rparr>
          \<lparr>world = 0, calls = [], logged = []\<rparr>))
     = [[''isort'', ''--multi-line=3'', ''--trailing-comma'', ''--force-grid-wrap=0'',
         ''--use-parentheses'', ''--line-width=119'', ''-rc'', ''-ws'', ''nemo''],
        [''black'', ''--skip-string-normalization'', ''--line-length=119'', ''nemo'']]
   \<and> world (snd (run (tools_exiting 2 0) \<lparr>scope = ''nemo'', fix = PyInt 1\<rparr>
          \<lparr>world = 0, calls = [], logged = []\<rparr>)) = 2"
  using black_runs_after_isort [of "tools_exiting 2 0" "\<lparr>scope = ''nemo'', fix = PyInt 1\<rparr>"
          "\<lparr>world = 0, calls = [], logged = []\<rparr>" 2 1]
  by (simp add: tools_exiting_def checker_command_def isort_tokens black_tokens)

text \<open>
  Claim C5. For every value of the \<^verbatim>\<open>fix\<close> option: when it is falsy (the default
  \<^verbatim>\<open>''\<close> is), both command lines are the tool's base command, the scope, and then
  \<^verbatim>\<open>--check --diff\<close>; when it is truthy, both are the base command and the scope,
  with nothing after it. These are the command lines \<^verbatim>\<open>run\<close> passes to
  \<^verbatim>\<open>subprocess.call\<close> (\<^verbatim>\<open>black\<close>'s once \<^verbatim>\<open>isort\<close> could be started), and neither
  base command contains \<^verbatim>\<open>--check\<close> or \<^verbatim>\<open>--diff\<close>.
\<close>

theorem fix_toggles_check_flags:
  "checker_command (split ISORT_BASE) (scope self) (\<not> truthy (fix self)) =
      (if truthy (fix self) then split ISORT_BASE @ [scope self]
       else split ISORT_BASE @ [scope self] @ [''--check'', ''--diff''])
   \<and> checker_command (split BLACK_BASE) (scope self) (\<not> truthy (fix self)) =
      (if truthy (fix self) then split BLACK_BASE @ [scope self]
       else split BLACK_BASE @ [scope self] @ [''--check'', ''--diff''])
   \<and> calls (snd (run exec self p)) =
       calls p @ [checker_command (split ISORT_BASE) (scope self) (\<not> truthy (fix self))] @
       (case fst (exec (checker_command (split ISORT_BASE) (scope self) (\<not> truthy (fix self)))
                    (world p)) of
          Inl e \<Rightarrow> []
        | Inr i \<Rightarrow> [checker_command (split BLACK_BASE) (scope self) (\<not> truthy (fix self))])
   \<and> ''--check'' \<notin> set (split ISORT_BASE) \<and> ''--diff'' \<notin> set (split ISORT_BASE)
   \<and> ''--check'' \<notin> set (split BLACK_BASE) \<and> ''--diff'' \<notin> set (split BLACK_BASE)"
proof -
  have "''--check'' \<notin> set (split ISORT_BASE) \<and> ''--diff'' \<notin> set (split ISORT_BASE)"
    by (simp add: isort_tokens)
  moreover have "''--check'' \<notin> set (split BLACK_BASE) \<and> ''--diff'' \<notin> set (split BLACK_BASE)"
    by (simp add: black_tokens)
  ultimately show ?thesis
    using run_calls [of exec self p] by (simp add: checker_command_def)
qed

text \<open>The option set to 1, and left at its default.\<close>

theorem fix_toggles_check_flags_witness:
  "calls (snd (run (tools_exiting 0 0) \<lparr>scope = ''nemo'', fix = PyInt 1\<rparr>
          \<lparr>world = 0, calls = [], logged = []\<rparr>))
     = [[''isort'', ''--multi-line=3'', ''--trailing-comma'', ''--force-grid-wrap=0'',
         ''--use-parentheses'', ''--line-width=119'', ''-rc'', ''-ws'', ''nemo''],
        [''black'', ''--skip-string-normalization'', ''--line-length=119'', ''nemo'']]
   \<and> calls (snd (run (tools_exiting 0 0) \<lparr>scope = ''nemo'', fix = PyStr []\<rparr>
          \<lparr>world = 0, calls = [], logged = []\<rparr>))
     = [[''isort'', ''--multi-line=3'', ''--trailing-comma'', ''--force-grid-wrap=0'',
         ''--use-parentheses'', ''--line-width=119'', ''-rc'', ''-ws'', ''nemo'', ''--check'',
         ''--diff''],
        [''black'', ''--skip-string-normalization'', ''--line-length=119'', ''nemo'', ''--check'',
         ''--diff'']]"
  using fix_toggles_check_flags [of "\<lparr>scope = ''nemo'', fix = PyInt 1\<rparr>" "tools_exiting 0 0"
          "\<lparr>world = 0, calls = [], logged = []\<rparr>"]
        fix_toggles_check_flags [of "\<lparr>scope = ''nemo'', fix = PyStr []\<rparr>" "tools_exiting 0 0"
          "\<lparr>world = 0, calls = [], logged = []\<rparr>"]
  by (simp add: tools_exiting_def isort_tokens black_tokens)

text \<open>
  Claim C9. After \<^verbatim>\<open>initialize_options\<close> the scope is \<^verbatim>\<open>'.'\<close> and \<^verbatim>\<open>fix\<close> is
  falsy, whatever the options were before. A run with these options calls both tools on
  \<^verbatim>\<open>.\<close> with \<^verbatim>\<open>--check --diff\<close>.
\<close>

theorem default_options_check_current_directory:
  "scope (initialize_options self) = ''.''
   \<and> \<not> truthy (fix (initialize_options self))
   \<and> calls (snd (run exec (finalize_options (initialize_options self)) p)) =
       calls p @
       [[''isort'', ''--multi-line=3'', ''--trailing-comma'', ''--force-grid-wrap=0'',
         ''--use-parentheses'', ''--line-width=119'', ''-rc'', ''-ws'', ''.'', ''--check'', ''--diff'']] @
       (case fst (exec [''isort'', ''--multi-line=3'', ''--trailing-comma'', ''--force-grid-wrap=0'',
                        ''--use-parentheses'', ''--line-width=119'', ''-rc'', ''-ws'', ''.'',
                        ''--check'', ''--diff''] (world p)) of
          Inl e \<Rightarrow> []
        | Inr i \<Rightarrow> [[''black'', ''--skip-string-normalization'', ''--line-length=119'', ''.'',
                     ''--check'', ''--diff'']])"
  using run_calls [of exec "initialize_options self" p]
  by (simp add: initialize_options_def finalize_options_def checker_command_def isort_tokens
      black_tokens split: sum.splits)

text \<open>A command whose options were set before \<^verbatim>\<open>initialize_options\<close> runs.\<close>

theorem default_options_witness:
  "calls (snd (run (tools_exiting 1 1)
        (finalize_options (initialize_options \<lparr>scope = ''nemo'', fix = PyInt 1\<rparr>))
        \<lparr>world = 0, calls = [], logged = []\<rparr>))
     = [[''isort'', ''--multi-line=3'', ''--trailing-comma'', ''--force-grid-wrap=0'',
         ''--use-parentheses'', ''--line-width=119'', ''-rc'', ''-ws'', ''.'', ''--check'',
         ''--diff''],
        [''black'', ''--skip-string-normalization'', ''--line-length=119'', ''.'', ''--check'',
         ''--diff'']]"
  using default_options_check_current_directory [of "\<lparr>scope = ''nemo'', fix = PyInt 1\<rparr>"
          "tools_exiting 1 1" "\<lparr>world = 0, calls = [], logged = []\<rparr>"]
  by (simp add: tools_exiting_def)

end
